theory Spec2Isabelle
  imports Complex_Main
begin

section \<open>Data model\<close>

text \<open>
  A table is an ordered collection of named columns. A column is a sequence of typed
  values, numeric or categorical, where \<open>None\<close> is the missing marker (NaN in the
  dataframe library). Numeric values are modelled as rationals.
\<close>

datatype column = NumCol "rat option list" | CatCol "string option list"

type_synonym table = "(string \<times> column) list"

text \<open>\<open>df.columns\<close>: the column names, in order.\<close>

definition columns :: "table \<Rightarrow> string list" where
  "columns T = map fst T"

text \<open>The values of a column that are present, in row order.\<close>

fun present :: "'a option list \<Rightarrow> 'a list" where
  "present [] = []"
| "present (None # xs) = present xs"
| "present (Some x # xs) = x # present xs"

fun col_len :: "column \<Rightarrow> nat" where
  "col_len (NumCol xs) = length xs"
| "col_len (CatCol xs) = length xs"

text \<open>Column metadata: the inferred type and the missing-value count.\<close>

datatype coltype = Numeric | Categorical

fun coltype_of :: "column \<Rightarrow> coltype" where
  "coltype_of (NumCol _) = Numeric"
| "coltype_of (CatCol _) = Categorical"

fun missing_count :: "column \<Rightarrow> nat" where
  "missing_count (NumCol xs) = length (filter (\<lambda>v. v = None) xs)"
| "missing_count (CatCol xs) = length (filter (\<lambda>v. v = None) xs)"

text \<open>The number of distinct categories (distinct present values) of a column.\<close>

fun n_categories :: "column \<Rightarrow> nat" where
  "n_categories (NumCol xs) = length (remdups (present xs))"
| "n_categories (CatCol xs) = length (remdups (present xs))"

section \<open>The notebook and its collaborators\<close>

type_synonym path = string

text \<open>The kinds of exception the imported functions can raise.\<close>

datatype error =
    FileNotFoundError path
  | KeyError string
  | ValueError string
  | OSError string
  | OtherError string

text \<open>
  The notebook imports its functions from \<open>src.data_preprocessing\<close>,
  \<open>src.visualizations\<close> and \<open>src.analysis\<close>, and \<open>os.makedirs\<close> from the standard
  library. Their bodies are not part of the notebook, so they are parameters of the
  model: each call either raises (\<open>Inl\<close>) or returns (\<open>Inr\<close>). \<open>'s\<close> is the type of
  the entries of the summary dictionary, \<open>'c\<close> that of the correlation result and
  \<open>'x\<close> that of a chi-square result.
\<close>

record ('s, 'c, 'x) env =
  makedirs :: "path \<Rightarrow> error + unit"
  load_data :: "path \<Rightarrow> error + table"
  clean_data :: "table \<Rightarrow> error + table"
  save_cleaned_data :: "table \<Rightarrow> path \<Rightarrow> error + unit"
  summarize_data :: "table \<Rightarrow> error + (string \<rightharpoonup> 's)"
  plot_distribution :: "table \<Rightarrow> string \<Rightarrow> path \<Rightarrow> error + unit"
  correlation_analysis :: "table \<Rightarrow> string \<Rightarrow> error + 'c"
  plot_correlation_heatmap :: "table \<Rightarrow> path \<Rightarrow> error + unit"
  plot_default_by_category :: "table \<Rightarrow> string \<Rightarrow> string \<Rightarrow> path \<Rightarrow> error + unit"
  chi_square_test :: "table \<Rightarrow> string \<Rightarrow> string \<Rightarrow> error + 'x"

text \<open>What a \<open>print\<close> statement of the notebook shows.\<close>

datatype ('s, 'c, 'x) printed =
    Text string
  | Head table
  | SummaryItem string 's
  | Correlations 'c
  | Chi2Result 'x

text \<open>
  The observable steps of a run, in the order they happen: the calls into the
  collaborators, with their arguments, and the prints.
\<close>

datatype ('s, 'c, 'x) event =
    MakeDirs path
  | LoadData path
  | CleanData table
  | SaveCleanedData table path
  | SummarizeData table
  | PlotDistribution table string path
  | CorrelationAnalysis table string
  | PlotCorrelationHeatmap table path
  | PlotDefaultByCategory table string string path
  | ChiSquareTest table string string
  | Print "('s, 'c, 'x) printed"

text \<open>
  A piece of notebook code yields the events it produced and either the exception
  that ended it or its value. Sequencing stops at the first exception, as a cell
  does and as running all cells does.
\<close>

type_synonym ('a, 'ev) nb = "'ev list \<times> (error + 'a)"

definition ret :: "'a \<Rightarrow> ('a, 'ev) nb" where
  "ret x = ([], Inr x)"

definition emit :: "'ev \<Rightarrow> (unit, 'ev) nb" where
  "emit ev = ([ev], Inr ())"

definition call :: "'ev \<Rightarrow> error + 'a \<Rightarrow> ('a, 'ev) nb" where
  "call ev r = ([ev], r)"

fun bnd :: "('a, 'ev) nb \<Rightarrow> ('a \<Rightarrow> ('b, 'ev) nb) \<Rightarrow> ('b, 'ev) nb" where
  "bnd (t, Inl e) f = (t, Inl e)"
| "bnd (t, Inr x) f = (t @ fst (f x), snd (f x))"

definition seq :: "('a, 'ev) nb \<Rightarrow> ('b, 'ev) nb \<Rightarrow> ('b, 'ev) nb" where
  "seq m n = bnd m (\<lambda>_. n)"

text \<open>\<open>d[k]\<close> on a dictionary raises \<open>KeyError\<close> for a key it does not hold.\<close>

definition getitem :: "(string \<rightharpoonup> 'v) \<Rightarrow> string \<Rightarrow> ('v, 'ev) nb" where
  "getitem d k = (case d k of None \<Rightarrow> ([], Inl (KeyError k)) | Some v \<Rightarrow> ret v)"

definition figures_dir :: path where
  "figures_dir = ''../reports/figures''"

definition data_path :: path where
  "data_path = ''../data/raw/credit_data.csv''"

definition processed_path :: path where
  "processed_path = ''../data/processed/credit_data_cleaned.csv''"

definition numerical_cols :: "string list" where
  "numerical_cols = [''loan_amnt'', ''int_rate'']"

definition categorical_cols :: "string list" where
  "categorical_cols = [''grade'']"

definition sensitive_col :: string where
  "sensitive_col = ''age''"

text \<open>Cell 1: \<open>os.makedirs('../reports/figures', exist_ok=True)\<close>.\<close>

definition setup_cell :: "('s, 'c, 'x) env \<Rightarrow> (unit, ('s, 'c, 'x) event) nb" where
  "setup_cell env = call (MakeDirs figures_dir) (makedirs env figures_dir)"

text \<open>Cell 2: load, preview, clean, save, preview. It binds \<open>df\<close> and \<open>df_clean\<close>.\<close>

definition load_and_clean_cell ::
  "('s, 'c, 'x) env \<Rightarrow> (table \<times> table, ('s, 'c, 'x) event) nb" where
  "load_and_clean_cell env =
     bnd (call (LoadData data_path) (load_data env data_path)) (\<lambda>df.
     seq (emit (Print (Text ''Raw Data Preview:''))) (
     seq (emit (Print (Head df))) (
     bnd (call (CleanData df) (clean_data env df)) (\<lambda>df_clean.
     seq (call (SaveCleanedData df_clean processed_path)
            (save_cleaned_data env df_clean processed_path)) (
     seq (emit (Print (Text (CHR 0x0A # ''Cleaned Data Preview:'')))) (
     seq (emit (Print (Head df_clean))) (
     ret (df, df_clean))))))))"

text \<open>Cell 3: the data summary and its three prints.\<close>

definition summary_cell ::
  "('s, 'c, 'x) env \<Rightarrow> table \<Rightarrow> (unit, ('s, 'c, 'x) event) nb" where
  "summary_cell env df_clean =
     bnd (call (SummarizeData df_clean) (summarize_data env df_clean)) (\<lambda>summary.
     seq (emit (Print (Text ''Summary Statistics:''))) (
     bnd (getitem summary ''numerical'') (\<lambda>v.
     seq (emit (Print (SummaryItem ''numerical'' v))) (
     seq (emit (Print (Text (CHR 0x0A # ''Missing Values:'')))) (
     bnd (getitem summary ''missing'') (\<lambda>v.
     seq (emit (Print (SummaryItem ''missing'' v))) (
     seq (emit (Print (Text (CHR 0x0A # ''Data Types:'')))) (
     bnd (getitem summary ''data_types'') (\<lambda>v.
     emit (Print (SummaryItem ''data_types'' v)))))))))))"

text \<open>Cell 4: the loop over \<open>numerical_cols\<close>.\<close>

fun univariate_loop ::
  "('s, 'c, 'x) env \<Rightarrow> table \<Rightarrow> string list \<Rightarrow> (unit, ('s, 'c, 'x) event) nb" where
  "univariate_loop env df_clean [] = ret ()"
| "univariate_loop env df_clean (col # cols) =
     seq (if col \<in> set (columns df_clean)
          then seq (call (PlotDistribution df_clean col figures_dir)
                      (plot_distribution env df_clean col figures_dir))
                   (emit (Print (Text (''Distribution plot for '' @ col @ '' saved.''))))
          else emit (Print (Text (''Column '' @ col @ '' not found in dataset.''))))
         (univariate_loop env df_clean cols)"

text \<open>Cell 5: the correlation with the target. It binds \<open>target\<close>.\<close>

definition correlation_cell ::
  "('s, 'c, 'x) env \<Rightarrow> table \<Rightarrow> (string, ('s, 'c, 'x) event) nb" where
  "correlation_cell env df_clean =
     (let target = ''default'' in
      seq (if target \<in> set (columns df_clean)
           then bnd (call (CorrelationAnalysis df_clean target)
                       (correlation_analysis env df_clean target)) (\<lambda>correlations.
                seq (emit (Print (Text ''Correlations with Default:''))) (
                seq (emit (Print (Correlations correlations))) (
                seq (call (PlotCorrelationHeatmap df_clean figures_dir)
                       (plot_correlation_heatmap env df_clean figures_dir)) (
                emit (Print (Text ''Correlation heatmap saved.''))))))
           else emit (Print (Text (''Target column '' @ target @ '' not found in dataset.''))))
          (ret target))"

text \<open>Cell 6: the loop over \<open>categorical_cols\<close>, reading \<open>target\<close> of cell 5.\<close>

fun category_loop ::
  "('s, 'c, 'x) env \<Rightarrow> table \<Rightarrow> string \<Rightarrow> string list \<Rightarrow> (unit, ('s, 'c, 'x) event) nb" where
  "category_loop env df_clean target [] = ret ()"
| "category_loop env df_clean target (col # cols) =
     seq (if col \<in> set (columns df_clean)
          then seq (call (PlotDefaultByCategory df_clean col target figures_dir)
                      (plot_default_by_category env df_clean col target figures_dir)) (
               seq (emit (Print (Text (''Default rate plot for '' @ col @ '' saved.'')))) (
               bnd (call (ChiSquareTest df_clean col target)
                      (chi_square_test env df_clean col target)) (\<lambda>chi2_result.
               seq (emit (Print (Text (''Chi-Square Test for '' @ col @ '':''))))
                   (emit (Print (Chi2Result chi2_result))))))
          else emit (Print (Text (''Column '' @ col @ '' not found in dataset.''))))
         (category_loop env df_clean target cols)"

text \<open>Cell 7: the fairness check on \<open>sensitive_col\<close>.\<close>

definition fairness_cell ::
  "('s, 'c, 'x) env \<Rightarrow> table \<Rightarrow> string \<Rightarrow> (unit, ('s, 'c, 'x) event) nb" where
  "fairness_cell env df_clean target =
     (if sensitive_col \<in> set (columns df_clean)
      then seq (call (PlotDefaultByCategory df_clean sensitive_col target figures_dir)
                  (plot_default_by_category env df_clean sensitive_col target figures_dir)) (
           seq (emit (Print (Text (''Default rate plot for '' @ sensitive_col @ '' saved.'')))) (
           bnd (call (ChiSquareTest df_clean sensitive_col target)
                  (chi_square_test env df_clean sensitive_col target)) (\<lambda>chi2_result.
           seq (emit (Print (Text (''Chi-Square Test for '' @ sensitive_col @ '':''))))
               (emit (Print (Chi2Result chi2_result))))))
      else emit (Print (Text (''Sensitive column '' @ sensitive_col @ '' not found in dataset.''))))"

text \<open>The cells that read the cleaned table, in notebook order.\<close>

definition analysis_cells ::
  "('s, 'c, 'x) env \<Rightarrow> table \<Rightarrow> (unit, ('s, 'c, 'x) event) nb" where
  "analysis_cells env df_clean =
     seq (summary_cell env df_clean) (
     seq (univariate_loop env df_clean numerical_cols) (
     bnd (correlation_cell env df_clean) (\<lambda>target.
     seq (category_loop env df_clean target categorical_cols)
         (fairness_cell env df_clean target))))"

text \<open>The whole notebook, top to bottom.\<close>

definition run_notebook :: "('s, 'c, 'x) env \<Rightarrow> (unit, ('s, 'c, 'x) event) nb" where
  "run_notebook env =
     seq (setup_cell env) (
     bnd (load_and_clean_cell env) (\<lambda>(df, df_clean).
     analysis_cells env df_clean))"

text \<open>The summarize, correlation, chi-square and plot steps.\<close>

fun is_analysis :: "('s, 'c, 'x) event \<Rightarrow> bool" where
  "is_analysis (SummarizeData _) = True"
| "is_analysis (PlotDistribution _ _ _) = True"
| "is_analysis (CorrelationAnalysis _ _) = True"
| "is_analysis (PlotCorrelationHeatmap _ _) = True"
| "is_analysis (PlotDefaultByCategory _ _ _ _) = True"
| "is_analysis (ChiSquareTest _ _ _) = True"
| "is_analysis _ = False"

text \<open>The table an event carries, if any.\<close>

fun table_of :: "('s, 'c, 'x) event \<Rightarrow> table option" where
  "table_of (CleanData T) = Some T"
| "table_of (SaveCleanedData T _) = Some T"
| "table_of (SummarizeData T) = Some T"
| "table_of (PlotDistribution T _ _) = Some T"
| "table_of (CorrelationAnalysis T _) = Some T"
| "table_of (PlotCorrelationHeatmap T _) = Some T"
| "table_of (PlotDefaultByCategory T _ _ _) = Some T"
| "table_of (ChiSquareTest T _ _) = Some T"
| "table_of (Print (Head T)) = Some T"
| "table_of _ = None"

text \<open>The events of cell 1 and of cell 2 up to the raw preview.\<close>

definition setup_trace :: "table \<Rightarrow> ('s, 'c, 'x) event list" where
  "setup_trace df = [MakeDirs figures_dir, LoadData data_path,
     Print (Text ''Raw Data Preview:''), Print (Head df)]"

text \<open>
  An event of the analysis cells as it should be: a call that reads the cleaned
  table, or a print of a text or of a result computed from the cleaned table.
\<close>

definition from_cleaned :: "('s, 'c, 'x) env \<Rightarrow> table \<Rightarrow> ('s, 'c, 'x) event \<Rightarrow> bool" where
  "from_cleaned env dfc e \<longleftrightarrow>
     (is_analysis e \<and> table_of e = Some dfc) \<or>
     (\<exists>s. e = Print (Text s)) \<or>
     (\<exists>k v s. e = Print (SummaryItem k v) \<and> summarize_data env dfc = Inr s \<and> s k = Some v) \<or>
     (\<exists>c. e = Print (Correlations c)) \<or>
     (\<exists>x. e = Print (Chi2Result x))"

text \<open>
  The membership checks of the notebook: the column of a distribution plot, the
  target of the correlation analysis, and the first column of a category plot and of
  a chi-square test are columns of the table passed.
\<close>

fun guarded :: "('s, 'c, 'x) event \<Rightarrow> bool" where
  "guarded (PlotDistribution T col _) \<longleftrightarrow> col \<in> set (columns T)"
| "guarded (CorrelationAnalysis T target) \<longleftrightarrow> target \<in> set (columns T)"
| "guarded (PlotDefaultByCategory T col _ _) \<longleftrightarrow> col \<in> set (columns T)"
| "guarded (ChiSquareTest T col _) \<longleftrightarrow> col \<in> set (columns T)"
| "guarded _ \<longleftrightarrow> True"

text \<open>
  A piece of notebook code contains no failure of a chi-square test: when a test it
  calls fails, the failing call is its last event and its outcome is that exception.
\<close>

definition stops_at_failed_test ::
  "('s, 'c, 'x) env \<Rightarrow> ('a, ('s, 'c, 'x) event) nb \<Rightarrow> bool" where
  "stops_at_failed_test env m \<longleftrightarrow>
     (\<forall>T c tg err. ChiSquareTest T c tg \<in> set (fst m) \<and> chi_square_test env T c tg = Inl err
        \<longrightarrow> snd m = Inl err \<and> last (fst m) = ChiSquareTest T c tg)"

subsection \<open>Sample collaborators and tables\<close>

text \<open>
  Collaborators for running the notebook on concrete tables: loading yields \<open>raw\<close>,
  cleaning yields \<open>cleaned\<close>, a plot or an analysis of a column the table lacks
  raises \<open>KeyError\<close>, and a chi-square test of a column with fewer than two
  categories raises \<open>ValueError\<close>.
\<close>

datatype summary_part =
    Numerical "(string \<times> nat) list"
  | Missing "(string \<times> nat) list"
  | DataTypes "(string \<times> coltype) list"

definition sample_env :: "table \<Rightarrow> table \<Rightarrow> (summary_part, string list, nat) env" where
  "sample_env raw cleaned = \<lparr>
     makedirs = (\<lambda>p. Inr ()),
     load_data = (\<lambda>p. if p = data_path then Inr raw else Inl (FileNotFoundError p)),
     clean_data = (\<lambda>T. Inr cleaned),
     save_cleaned_data = (\<lambda>T p. Inr ()),
     summarize_data = (\<lambda>T. Inr [
        ''numerical'' \<mapsto> Numerical (map (\<lambda>(n, c). (n, col_len c - missing_count c))
                                   (filter (\<lambda>(n, c). coltype_of c = Numeric) T)),
        ''missing'' \<mapsto> Missing (map (\<lambda>(n, c). (n, missing_count c)) T),
        ''data_types'' \<mapsto> DataTypes (map (\<lambda>(n, c). (n, coltype_of c)) T)]),
     plot_distribution = (\<lambda>T c d. if c \<in> set (columns T) then Inr () else Inl (KeyError c)),
     correlation_analysis = (\<lambda>T tg. if tg \<in> set (columns T)
        then Inr (map fst (filter (\<lambda>(n, c). coltype_of c = Numeric \<and> n \<noteq> tg) T))
        else Inl (KeyError tg)),
     plot_correlation_heatmap = (\<lambda>T d. Inr ()),
     plot_default_by_category = (\<lambda>T c tg d.
        if c \<notin> set (columns T) then Inl (KeyError c)
        else if tg \<notin> set (columns T) then Inl (KeyError tg) else Inr ()),
     chi_square_test = (\<lambda>T c tg.
        case (map_of T c, map_of T tg) of
          (None, _) \<Rightarrow> Inl (KeyError c)
        | (Some a, None) \<Rightarrow> Inl (KeyError tg)
        | (Some a, Some b) \<Rightarrow>
            if n_categories a < 2 \<or> n_categories b < 2
            then Inl (ValueError ''fewer than 2 categories'')
            else Inr ((n_categories a - 1) * (n_categories b - 1)))
   \<rparr>"

text \<open>The example table of the specification, before and after cleaning.\<close>

definition example_raw :: table where
  "example_raw = [
     (''loan_amnt'', NumCol [Some 1000, None, Some 5000]),
     (''grade'', CatCol [Some ''A'', Some ''B'', Some ''A'']),
     (''default'', NumCol [Some 0, Some 1, Some 0])]"

definition example_clean :: table where
  "example_clean = [
     (''loan_amnt'', NumCol [Some 1000, Some 3000, Some 5000]),
     (''grade'', CatCol [Some ''A'', Some ''B'', Some ''A'']),
     (''default'', NumCol [Some 0, Some 1, Some 0])]"

text \<open>A cleaned table with a \<open>grade\<close> column and no \<open>default\<close> column.\<close>

definition no_target_table :: table where
  "no_target_table = [
     (''loan_amnt'', NumCol [Some 1000, Some 3000, Some 5000]),
     (''grade'', CatCol [Some ''A'', Some ''B'', Some ''A''])]"

section \<open>The Cleaner\<close>

text \<open>
  Modelled from the spec: \<open>clean_data\<close> of \<open>src/data_preprocessing.py\<close> is imported
  by the notebook and is not among the sources. The specification (section 4.2)
  gives its contract and leaves the policy open: which value replaces a missing one,
  which categorical columns are encoded and how, which values count as outliers and
  whether their rows are removed or the values capped. The policy is therefore a
  parameter of the model, and the steps follow the order the notebook states:
  handle missing values, encode categorical variables, remove outliers.
\<close>

datatype outlier_action = Remove | Cap

record policy =
  num_fill :: "rat list \<Rightarrow> rat"
  cat_fill :: "string list \<Rightarrow> string"
  encoded :: "string \<Rightarrow> bool"
  code_of :: "string list \<Rightarrow> string \<Rightarrow> rat"
  is_outlier :: "rat list \<Rightarrow> rat \<Rightarrow> bool"
  action :: outlier_action
  cap_to :: "rat list \<Rightarrow> rat \<Rightarrow> rat"

text \<open>The warning signal of the Cleaner.\<close>

datatype warning = ColumnDropped string

text \<open>The row count of a table, and the invariant that all columns have equal length.\<close>

definition nrows :: "table \<Rightarrow> nat" where
  "nrows T = (case T of [] \<Rightarrow> 0 | (n, c) # _ \<Rightarrow> col_len c)"

definition wf_table :: "table \<Rightarrow> bool" where
  "wf_table T = list_all (\<lambda>(n, c). col_len c = nrows T) T"

text \<open>
  Modelled from the spec: "a column entirely missing is dropped with a warning
  signal". A column is entirely missing when it has rows and none of them holds a
  value.
\<close>

definition all_missing :: "column \<Rightarrow> bool" where
  "all_missing c \<longleftrightarrow> 0 < col_len c \<and> missing_count c = col_len c"

definition drop_missing_columns :: "table \<Rightarrow> table \<times> warning list" where
  "drop_missing_columns T =
     (filter (\<lambda>(n, c). \<not> all_missing c) T,
      map (\<lambda>(n, c). ColumnDropped n) (filter (\<lambda>(n, c). all_missing c) T))"

text \<open>
  Modelled from the spec: "missing numeric values are imputed (e.g., median or mean
  substitution)", "missing categorical values are imputed with a placeholder category
  or the mode". The value is computed by the policy from the present values of the
  column.
\<close>

definition fill :: "'a \<Rightarrow> 'a option list \<Rightarrow> 'a option list" where
  "fill v xs = map (\<lambda>x. case x of None \<Rightarrow> Some v | Some y \<Rightarrow> Some y) xs"

fun impute_column :: "policy \<Rightarrow> column \<Rightarrow> column" where
  "impute_column P (NumCol xs) = NumCol (fill (num_fill P (present xs)) xs)"
| "impute_column P (CatCol xs) = CatCol (fill (cat_fill P (present xs)) xs)"

definition impute :: "policy \<Rightarrow> table \<Rightarrow> table" where
  "impute P T = map (\<lambda>(n, c). (n, impute_column P c)) T"

text \<open>
  Modelled from the spec: "categorical columns intended for downstream numeric
  analysis are encoded". The policy names those columns and gives each category its
  code; an encoded column is numeric.
\<close>

fun encode_column :: "policy \<Rightarrow> string \<Rightarrow> column \<Rightarrow> column" where
  "encode_column P n (CatCol xs) =
     (if encoded P n then NumCol (map (map_option (code_of P (present xs))) xs) else CatCol xs)"
| "encode_column P n (NumCol xs) = NumCol xs"

definition encode :: "policy \<Rightarrow> table \<Rightarrow> table" where
  "encode P T = map (\<lambda>(n, c). (n, encode_column P n c)) T"

text \<open>
  Modelled from the spec: "outliers in numeric columns are detected (e.g., IQR or
  z-score threshold) and removed or capped". A value is tested against the present
  values of its column. Removal deletes every row that holds an outlier in some
  numeric column, from all columns; capping replaces the value and keeps the row.
\<close>

fun flags :: "policy \<Rightarrow> column \<Rightarrow> bool list" where
  "flags P (NumCol xs) =
     map (\<lambda>v. case v of None \<Rightarrow> False | Some x \<Rightarrow> is_outlier P (present xs) x) xs"
| "flags P (CatCol xs) = map (\<lambda>v. False) xs"

definition keep_mask :: "policy \<Rightarrow> table \<Rightarrow> bool list" where
  "keep_mask P T =
     foldr (\<lambda>(n, c) m. map2 (\<lambda>f k. \<not> f \<and> k) (flags P c) m) T (replicate (nrows T) True)"

definition select :: "bool list \<Rightarrow> 'a list \<Rightarrow> 'a list" where
  "select m xs = map snd (filter fst (zip m xs))"

fun select_rows :: "bool list \<Rightarrow> column \<Rightarrow> column" where
  "select_rows m (NumCol xs) = NumCol (select m xs)"
| "select_rows m (CatCol xs) = CatCol (select m xs)"

fun cap_column :: "policy \<Rightarrow> column \<Rightarrow> column" where
  "cap_column P (NumCol xs) =
     NumCol (map (map_option (\<lambda>x. if is_outlier P (present xs) x
                                     then cap_to P (present xs) x else x)) xs)"
| "cap_column P (CatCol xs) = CatCol xs"

definition handle_outliers :: "policy \<Rightarrow> table \<Rightarrow> table" where
  "handle_outliers P T =
     (case action P of
        Remove \<Rightarrow> map (\<lambda>(n, c). (n, select_rows (keep_mask P T) c)) T
      | Cap \<Rightarrow> map (\<lambda>(n, c). (n, cap_column P c)) T)"

text \<open>
  Modelled from the spec: the Cleaner, "given a Table, returns a new Table", a pure
  transformation. It returns the new table and the warnings; it has no failure.
\<close>

definition clean :: "policy \<Rightarrow> table \<Rightarrow> table \<times> warning list" where
  "clean P T =
     (let (T1, ws) = drop_missing_columns T
      in (handle_outliers P (encode P (impute P T1)), ws))"

text \<open>No column has a missing value; no column has a row.\<close>

definition no_missing :: "table \<Rightarrow> bool" where
  "no_missing T = list_all (\<lambda>(n, c). missing_count c = 0) T"

definition empty_table :: "table \<Rightarrow> bool" where
  "empty_table T = list_all (\<lambda>(n, c). col_len c = 0) T"

text \<open>
  The policy flags some value of the table as an outlier; every categorical column
  that the policy encodes has been encoded.
\<close>

definition has_outlier :: "policy \<Rightarrow> table \<Rightarrow> bool" where
  "has_outlier P T = list_ex (\<lambda>(n, c). list_ex (\<lambda>f. f) (flags P c)) T"

definition encoding_done :: "policy \<Rightarrow> table \<Rightarrow> bool" where
  "encoding_done P T = list_all (\<lambda>(n, c). coltype_of c = Numeric \<or> \<not> encoded P n) T"

subsection \<open>A sample policy\<close>

text \<open>
  The examples the specification names: the median for numeric values, the mode
  for categories, no encoding, and removal of the rows outside 1.5 times the
  interquartile range, with quantiles interpolated linearly.
\<close>

definition quantile :: "rat list \<Rightarrow> rat \<Rightarrow> rat" where
  "quantile xs q =
     (if xs = [] then 0
      else let s = sort xs; h = of_nat (length s - 1) * q; lo = nat \<lfloor>h\<rfloor>;
               hi = min (lo + 1) (length s - 1)
           in s ! lo + (h - of_int \<lfloor>h\<rfloor>) * (s ! hi - s ! lo))"

definition median :: "rat list \<Rightarrow> rat" where
  "median xs = quantile xs (1 / 2)"

definition mode :: "string list \<Rightarrow> string" where
  "mode xs =
     (case xs of
        [] \<Rightarrow> ''unknown''
      | _ \<Rightarrow> fst (foldr (\<lambda>x (b, k). if count_list xs x \<ge> k then (x, count_list xs x) else (b, k))
                    xs ([], 0)))"

definition iqr_outlier :: "rat list \<Rightarrow> rat \<Rightarrow> bool" where
  "iqr_outlier xs x =
     (let q1 = quantile xs (1 / 4); q3 = quantile xs (3 / 4); w = (3 / 2) * (q3 - q1)
      in x < q1 - w \<or> q3 + w < x)"

definition sample_policy :: policy where
  "sample_policy = \<lparr>
     num_fill = median, cat_fill = mode, encoded = (\<lambda>n. False),
     code_of = (\<lambda>xs x. of_nat (length (takeWhile (\<lambda>y. y \<noteq> x) (remdups xs)))),
     is_outlier = iqr_outlier, action = Remove, cap_to = (\<lambda>xs x. x) \<rparr>"

text \<open>
  A table with a missing value, an outlier and an entirely missing column, and a
  table without rows.
\<close>

definition messy_table :: table where
  "messy_table = [
     (''a'', NumCol [Some 1, Some 2, Some 3, Some 4, Some 100]),
     (''b'', CatCol [None, None, None, None, None]),
     (''c'', CatCol [Some ''x'', None, Some ''y'', Some ''y'', Some ''x''])]"

definition no_rows_table :: table where
  "no_rows_table = [(''loan_amnt'', NumCol []), (''grade'', CatCol []), (''default'', NumCol [])]"

text \<open>A column whose quartiles move when its largest value is removed.\<close>

definition skewed_table :: table where
  "skewed_table = [(''x'', NumCol [Some 0, Some 0, Some 0, Some 1, Some 3])]"

section \<open>Properties of the notebook\<close>

subsection \<open>Traces of sequenced code\<close>

lemma fst_bnd: "fst (bnd m f) = fst m @ (case snd m of Inl e \<Rightarrow> [] | Inr x \<Rightarrow> fst (f x))"
  by (cases m; cases "snd m") auto

lemma snd_bnd: "snd (bnd m f) = (case snd m of Inl e \<Rightarrow> Inl e | Inr x \<Rightarrow> snd (f x))"
  by (cases m; cases "snd m") auto

lemma fst_seq: "fst (seq m n) = fst m @ (case snd m of Inl e \<Rightarrow> [] | Inr x \<Rightarrow> fst n)"
  by (simp add: seq_def fst_bnd)

lemma snd_seq: "snd (seq m n) = (case snd m of Inl e \<Rightarrow> Inl e | Inr x \<Rightarrow> snd n)"
  by (simp add: seq_def snd_bnd)

lemmas nb_simps = fst_bnd snd_bnd fst_seq snd_seq ret_def emit_def call_def getitem_def

text \<open>The trace of a run, by the outcome of each step of the first two cells.\<close>

lemma run_trace_cases:
  "fst (run_notebook env) =
    (case makedirs env figures_dir of Inl e \<Rightarrow> [MakeDirs figures_dir]
     | Inr u \<Rightarrow>
    (case load_data env data_path of Inl e \<Rightarrow> [MakeDirs figures_dir, LoadData data_path]
     | Inr df \<Rightarrow>
    (case clean_data env df of Inl e \<Rightarrow> setup_trace df @ [CleanData df]
     | Inr dfc \<Rightarrow>
    (case save_cleaned_data env dfc processed_path of
       Inl e \<Rightarrow> setup_trace df @ [CleanData df, SaveCleanedData dfc processed_path]
     | Inr u \<Rightarrow> setup_trace df @ [CleanData df, SaveCleanedData dfc processed_path]
         @ [Print (Text (CHR 0x0A # ''Cleaned Data Preview:'')), Print (Head dfc)]
         @ fst (analysis_cells env dfc)))))"
  by (simp add: run_notebook_def setup_cell_def load_and_clean_cell_def nb_simps setup_trace_def
      split: sum.splits)

subsection \<open>The cleaned dataset is saved first\<close>

text \<open>
  Claim C9. In every run, whatever the collaborators do: once \<open>clean_data\<close> has
  returned, the very next step is \<open>save_cleaned_data\<close> on the cleaned table and the
  processed-data path, and no summarize, correlation, chi-square or plot step comes
  before it. Every such step of the run comes after a save that succeeded, so the
  cleaned file is written whether or not a later step is skipped or fails.
\<close>

theorem save_cleaned_data_precedes_analysis:
  "(\<forall>df dfc. makedirs env figures_dir = Inr () \<and> load_data env data_path = Inr df \<and>
       clean_data env df = Inr dfc \<longrightarrow>
       (\<exists>post. fst (run_notebook env) =
          setup_trace df @ [CleanData df, SaveCleanedData dfc processed_path] @ post) \<and>
       \<not> list_ex is_analysis (setup_trace df @ [CleanData df] :: ('s, 'c, 'x) event list)) \<and>
   (\<forall>e \<in> set (fst (run_notebook env)). is_analysis e \<longrightarrow>
       (\<exists>df dfc post. clean_data env df = Inr dfc \<and>
          save_cleaned_data env dfc processed_path = Inr () \<and>
          fst (run_notebook env) =
            setup_trace df @ [CleanData df, SaveCleanedData dfc processed_path] @ post \<and>
          e \<in> set post))"
proof (rule conjI)
  show "\<forall>df dfc. makedirs env figures_dir = Inr () \<and> load_data env data_path = Inr df \<and>
       clean_data env df = Inr dfc \<longrightarrow>
       (\<exists>post. fst (run_notebook env) =
          setup_trace df @ [CleanData df, SaveCleanedData dfc processed_path] @ post) \<and>
       \<not> list_ex is_analysis (setup_trace df @ [CleanData df] :: ('s, 'c, 'x) event list)"
    by (auto simp: run_trace_cases setup_trace_def split: sum.splits)
next
  show "\<forall>e \<in> set (fst (run_notebook env)). is_analysis e \<longrightarrow>
       (\<exists>df dfc post. clean_data env df = Inr dfc \<and>
          save_cleaned_data env dfc processed_path = Inr () \<and>
          fst (run_notebook env) =
            setup_trace df @ [CleanData df, SaveCleanedData dfc processed_path] @ post \<and>
          e \<in> set post)"
    by (auto simp: run_trace_cases setup_trace_def split: sum.splits)
qed

theorem save_cleaned_data_precedes_analysis_witness:
  "makedirs (sample_env example_raw example_clean) figures_dir = Inr () \<and>
   load_data (sample_env example_raw example_clean) data_path = Inr example_raw \<and>
   clean_data (sample_env example_raw example_clean) example_raw = Inr example_clean \<and>
   (\<exists>post. fst (run_notebook (sample_env example_raw example_clean)) =
      setup_trace example_raw @
      [CleanData example_raw, SaveCleanedData example_clean processed_path] @ post) \<and>
   SummarizeData example_clean \<in> set (fst (run_notebook (sample_env example_raw example_clean))) \<and>
   is_analysis (SummarizeData example_clean :: (summary_part, string list, nat) event) \<and>
   (\<exists>df dfc post. clean_data (sample_env example_raw example_clean) df = Inr dfc \<and>
      save_cleaned_data (sample_env example_raw example_clean) dfc processed_path = Inr () \<and>
      fst (run_notebook (sample_env example_raw example_clean)) =
        setup_trace df @ [CleanData df, SaveCleanedData dfc processed_path] @ post \<and>
      SummarizeData example_clean \<in> set post)"
proof -
  let ?env = "sample_env example_raw example_clean"
  have pre: "makedirs ?env figures_dir = Inr () \<and> load_data ?env data_path = Inr example_raw \<and>
      clean_data ?env example_raw = Inr example_clean"
    by (simp add: sample_env_def)
  have mem: "SummarizeData example_clean \<in> set (fst (run_notebook ?env))"
    by code_simp
  have ana: "is_analysis (SummarizeData example_clean :: (summary_part, string list, nat) event)"
    by simp
  note main = save_cleaned_data_precedes_analysis[of ?env]
  from main[THEN conjunct1, rule_format, OF pre]
  have A: "\<exists>post. fst (run_notebook ?env) =
      setup_trace example_raw @
      [CleanData example_raw, SaveCleanedData example_clean processed_path] @ post"
    by (rule conjunct1)
  from main[THEN conjunct2, rule_format, OF mem ana]
  have B: "\<exists>df dfc post. clean_data ?env df = Inr dfc \<and>
      save_cleaned_data ?env dfc processed_path = Inr () \<and>
      fst (run_notebook ?env) =
        setup_trace df @ [CleanData df, SaveCleanedData dfc processed_path] @ post \<and>
      SummarizeData example_clean \<in> set post" .
  from pre A mem ana B show ?thesis
    by (intro conjI) (erule conjE | assumption)+
qed

subsection \<open>Every analysis step reads the cleaned table\<close>

lemma summary_cell_from_cleaned:
  "e \<in> set (fst (summary_cell env dfc)) \<Longrightarrow> from_cleaned env dfc e"
  by (auto simp: summary_cell_def nb_simps from_cleaned_def split: sum.splits option.splits)

lemma univariate_loop_from_cleaned:
  "e \<in> set (fst (univariate_loop env dfc cols)) \<Longrightarrow> from_cleaned env dfc e"
  by (induction cols) (auto simp: nb_simps from_cleaned_def split: sum.splits if_splits)

lemma correlation_cell_from_cleaned:
  "e \<in> set (fst (correlation_cell env dfc)) \<Longrightarrow> from_cleaned env dfc e"
  by (auto simp: correlation_cell_def Let_def nb_simps from_cleaned_def
      split: sum.splits if_splits)

lemma category_loop_from_cleaned:
  "e \<in> set (fst (category_loop env dfc target cols)) \<Longrightarrow> from_cleaned env dfc e"
  by (induction cols) (auto simp: nb_simps from_cleaned_def split: sum.splits if_splits)

lemma fairness_cell_from_cleaned:
  "e \<in> set (fst (fairness_cell env dfc target)) \<Longrightarrow> from_cleaned env dfc e"
  by (auto simp: fairness_cell_def nb_simps from_cleaned_def split: sum.splits if_splits)

lemma analysis_cells_from_cleaned:
  "e \<in> set (fst (analysis_cells env dfc)) \<Longrightarrow> from_cleaned env dfc e"
  by (auto simp: analysis_cells_def nb_simps split: sum.splits
      dest: summary_cell_from_cleaned univariate_loop_from_cleaned correlation_cell_from_cleaned
        category_loop_from_cleaned fairness_cell_from_cleaned)

text \<open>
  Claim C10. When \<open>load_data\<close> returns \<open>df\<close> and \<open>clean_data\<close> returns \<open>dfc\<close> for
  it, every summarize, correlation, chi-square and plot call of the run is passed
  \<open>dfc\<close>; the raw table occurs only in its printed preview and as the argument of
  \<open>clean_data\<close>; and the missing-value counts that are printed are the \<open>missing\<close>
  entry of \<open>summarize_data\<close> applied to \<open>dfc\<close>.
\<close>

theorem analysis_reads_cleaned_table:
  assumes "load_data env data_path = Inr df" and "clean_data env df = Inr dfc"
  shows "\<forall>e \<in> set (fst (run_notebook env)).
     (is_analysis e \<longrightarrow> table_of e = Some dfc) \<and>
     (table_of e = None \<or> table_of e = Some dfc \<or> e = Print (Head df) \<or> e = CleanData df) \<and>
     (\<forall>v. e = Print (SummaryItem ''missing'' v) \<longrightarrow>
        (\<exists>s. summarize_data env dfc = Inr s \<and> s ''missing'' = Some v))"
proof
  fix e assume e: "e \<in> set (fst (run_notebook env))"
  then consider "e \<in> set (setup_trace df)" | "e = CleanData df"
    | "e = SaveCleanedData dfc processed_path"
    | "e = Print (Text (CHR 0x0A # ''Cleaned Data Preview:''))" | "e = Print (Head dfc)"
    | "e \<in> set (fst (analysis_cells env dfc))"
    using assms by (auto simp: run_trace_cases setup_trace_def split: sum.splits)
  then show "(is_analysis e \<longrightarrow> table_of e = Some dfc) \<and>
     (table_of e = None \<or> table_of e = Some dfc \<or> e = Print (Head df) \<or> e = CleanData df) \<and>
     (\<forall>v. e = Print (SummaryItem ''missing'' v) \<longrightarrow>
        (\<exists>s. summarize_data env dfc = Inr s \<and> s ''missing'' = Some v))"
  proof cases
    case 6
    from analysis_cells_from_cleaned[OF this] show ?thesis
      by (auto simp: from_cleaned_def)
  qed (auto simp: setup_trace_def)
qed

theorem analysis_reads_cleaned_table_witness:
  "load_data (sample_env example_raw example_clean) data_path = Inr example_raw \<and>
   clean_data (sample_env example_raw example_clean) example_raw = Inr example_clean \<and>
   CorrelationAnalysis example_clean ''default''
     \<in> set (fst (run_notebook (sample_env example_raw example_clean))) \<and>
   table_of (CorrelationAnalysis example_clean ''default'' :: (summary_part, string list, nat) event)
     = Some example_clean \<and>
   Print (SummaryItem ''missing'' (Missing [(''loan_amnt'', 0), (''grade'', 0), (''default'', 0)]))
     \<in> set (fst (run_notebook (sample_env example_raw example_clean))) \<and>
   (\<exists>s. summarize_data (sample_env example_raw example_clean) example_clean = Inr s \<and>
      s ''missing'' = Some (Missing [(''loan_amnt'', 0), (''grade'', 0), (''default'', 0)]))"
proof -
  let ?env = "sample_env example_raw example_clean"
  let ?m = "Missing [(''loan_amnt'', 0), (''grade'', 0), (''default'', 0)]"
  have l: "load_data ?env data_path = Inr example_raw"
    and c: "clean_data ?env example_raw = Inr example_clean"
    by (simp_all add: sample_env_def)
  have m1: "CorrelationAnalysis example_clean ''default'' \<in> set (fst (run_notebook ?env))"
    by code_simp
  have m2: "Print (SummaryItem ''missing'' ?m) \<in> set (fst (run_notebook ?env))"
    by code_simp
  note main = analysis_reads_cleaned_table[OF l c]
  from bspec[OF main m1]
  have A: "table_of (CorrelationAnalysis example_clean ''default''
      :: (summary_part, string list, nat) event) = Some example_clean"
    by simp
  from bspec[OF main m2]
  have B: "\<exists>s. summarize_data ?env example_clean = Inr s \<and> s ''missing'' = Some ?m"
    by simp
  from l c m1 A m2 B show ?thesis
    by (intro conjI)
qed

subsection \<open>A failing chi-square test ends the run\<close>

lemma stops_ret: "stops_at_failed_test env (ret x)"
  by (simp add: stops_at_failed_test_def ret_def)

lemma stops_emit: "stops_at_failed_test env (emit (Print p))"
  by (simp add: stops_at_failed_test_def emit_def)

lemma stops_call_other:
  "\<not> (\<exists>T c tg. ev = ChiSquareTest T c tg) \<Longrightarrow> stops_at_failed_test env (call ev r)"
  by (auto simp: stops_at_failed_test_def call_def)

lemma stops_call_test:
  "stops_at_failed_test env (call (ChiSquareTest T c tg) (chi_square_test env T c tg))"
  by (simp add: stops_at_failed_test_def call_def)

lemma stops_getitem: "stops_at_failed_test env (getitem d k)"
  by (simp add: stops_at_failed_test_def getitem_def ret_def split: option.splits)

lemma stops_bnd:
  assumes "stops_at_failed_test env m" and "\<And>x. stops_at_failed_test env (f x)"
  shows "stops_at_failed_test env (bnd m f)"
proof (cases "snd m")
  case (Inl e)
  then have "bnd m f = (fst m, Inl e)" by (cases m) simp
  with assms(1) Inl show ?thesis by (simp add: stops_at_failed_test_def)
next
  case (Inr x)
  then have eq: "bnd m f = (fst m @ fst (f x), snd (f x))" by (cases m) simp
  show ?thesis
    unfolding stops_at_failed_test_def eq
  proof (intro allI impI, elim conjE)
    fix T c tg err
    assume mem: "ChiSquareTest T c tg \<in> set (fst (fst m @ fst (f x), snd (f x)))"
      and fail: "chi_square_test env T c tg = Inl err"
    have "ChiSquareTest T c tg \<notin> set (fst m)"
      using assms(1) fail Inr by (auto simp: stops_at_failed_test_def)
    with mem have "ChiSquareTest T c tg \<in> set (fst (f x))" by simp
    with assms(2)[of x] fail
    have "snd (f x) = Inl err" and "last (fst (f x)) = ChiSquareTest T c tg"
      and "fst (f x) \<noteq> []"
      by (auto simp: stops_at_failed_test_def)
    then show "snd (fst m @ fst (f x), snd (f x)) = Inl err \<and>
       last (fst (fst m @ fst (f x), snd (f x))) = ChiSquareTest T c tg"
      by simp
  qed
qed

lemma stops_seq:
  "stops_at_failed_test env m \<Longrightarrow> stops_at_failed_test env n \<Longrightarrow>
   stops_at_failed_test env (seq m n)"
  by (simp add: seq_def stops_bnd)

lemmas stops_intros = stops_ret stops_emit stops_call_test stops_getitem stops_bnd stops_seq

lemma stops_univariate: "stops_at_failed_test env (univariate_loop env dfc cols)"
  by (induction cols) (auto intro!: stops_intros stops_call_other)

lemma stops_category: "stops_at_failed_test env (category_loop env dfc tg cols)"
  by (induction cols) (auto intro!: stops_intros stops_call_other)

lemma stops_run: "stops_at_failed_test env (run_notebook env)"
  unfolding run_notebook_def analysis_cells_def setup_cell_def load_and_clean_cell_def
    summary_cell_def correlation_cell_def fairness_cell_def Let_def
  by (auto intro!: stops_intros stops_call_other stops_univariate stops_category)

text \<open>
  The notebook calls \<open>chi_square_test\<close> without a handler. When a call that a run
  reaches raises, that call is the last step of the run and the run ends with its
  exception.
\<close>

lemma raising_chi_square_test_ends_run:
  assumes "ChiSquareTest T c tg \<in> set (fst (run_notebook env))"
    and "chi_square_test env T c tg = Inl err"
  shows "snd (run_notebook env) = Inl err \<and>
         last (fst (run_notebook env)) = ChiSquareTest T c tg"
  using assms stops_run[of env]
  unfolding stops_at_failed_test_def by blast

subsection \<open>The target column is not checked in cells 6 and 7\<close>

text \<open>
  Every call of a run passes the membership checks that the notebook makes. The
  second column of a category plot and of a chi-square test, \<open>target\<close>, is not
  among them.
\<close>

lemma summary_cell_guarded: "e \<in> set (fst (summary_cell env dfc)) \<Longrightarrow> guarded e"
  by (auto simp: summary_cell_def nb_simps split: sum.splits option.splits)

lemma univariate_loop_guarded: "e \<in> set (fst (univariate_loop env dfc cols)) \<Longrightarrow> guarded e"
  by (induction cols) (auto simp: nb_simps split: sum.splits if_splits)

lemma correlation_cell_guarded: "e \<in> set (fst (correlation_cell env dfc)) \<Longrightarrow> guarded e"
  by (auto simp: correlation_cell_def Let_def nb_simps split: sum.splits if_splits)

lemma category_loop_guarded:
  "e \<in> set (fst (category_loop env dfc target cols)) \<Longrightarrow> guarded e"
  by (induction cols) (auto simp: nb_simps split: sum.splits if_splits)

lemma fairness_cell_guarded: "e \<in> set (fst (fairness_cell env dfc target)) \<Longrightarrow> guarded e"
  by (auto simp: fairness_cell_def nb_simps split: sum.splits if_splits)

lemma analysis_cells_guarded: "e \<in> set (fst (analysis_cells env dfc)) \<Longrightarrow> guarded e"
  by (auto simp: analysis_cells_def nb_simps split: sum.splits
      dest: summary_cell_guarded univariate_loop_guarded correlation_cell_guarded
        category_loop_guarded fairness_cell_guarded)

lemma first_column_is_checked: "e \<in> set (fst (run_notebook env)) \<Longrightarrow> guarded e"
  by (auto simp: run_trace_cases setup_trace_def split: sum.splits dest: analysis_cells_guarded)

text \<open>
  Claim C2 at a cleaned table that has a \<open>grade\<close> column and no \<open>default\<close> column:
  cell 6 checks \<open>grade\<close> only, so \<open>plot_default_by_category\<close> is called with the
  absent column \<open>default\<close>, and the \<open>KeyError\<close> it raises ends the run.
\<close>

theorem target_membership_unchecked:
  "''grade'' \<in> set (columns no_target_table) \<and>
   ''default'' \<notin> set (columns no_target_table) \<and>
   PlotDefaultByCategory no_target_table ''grade'' ''default'' figures_dir
     \<in> set (fst (run_notebook (sample_env no_target_table no_target_table))) \<and>
   snd (run_notebook (sample_env no_target_table no_target_table)) = Inl (KeyError ''default'')"
  by code_simp

section \<open>Properties of the Cleaner\<close>

subsection \<open>Missing values and row count\<close>

lemma missing_count_fill:
  "length (filter (\<lambda>v. v = None) (fill v xs)) = 0"
  by (induction xs) (auto simp: fill_def split: option.splits)

lemma missing_count_impute: "missing_count (impute_column P c) = 0"
  by (cases c) (simp_all add: missing_count_fill)

lemma col_len_impute: "col_len (impute_column P c) = col_len c"
  by (cases c) (simp_all add: fill_def)

lemma none_map_option:
  "filter (\<lambda>v. v = None) (map (map_option f) xs) = map (map_option f) (filter (\<lambda>v. v = None) xs)"
  by (induction xs) auto

lemma missing_count_encode: "missing_count (encode_column P n c) = missing_count c"
  by (cases c) (simp_all add: none_map_option)

lemma col_len_encode: "col_len (encode_column P n c) = col_len c"
  by (cases c) simp_all

lemma missing_count_cap: "missing_count (cap_column P c) = missing_count c"
  by (cases c) (simp_all add: none_map_option)

lemma col_len_cap: "col_len (cap_column P c) = col_len c"
  by (cases c) simp_all

lemma set_select: "set (select m xs) \<subseteq> set xs"
  by (auto simp: select_def dest: set_zip_rightD)

lemma length_select: "length (select m xs) \<le> length xs"
proof -
  have "length (select m xs) \<le> length (zip m xs)"
    unfolding select_def length_map by (rule length_filter_le)
  then show ?thesis by simp
qed

lemma no_none_filter: "length (filter (\<lambda>v. v = None) xs) = 0 \<longleftrightarrow> None \<notin> set xs"
  by (induction xs) auto

lemma none_select: "None \<notin> set xs \<Longrightarrow> None \<notin> set (select m xs)"
  using set_select[of m xs] by blast

lemma missing_count_select:
  "missing_count c = 0 \<Longrightarrow> missing_count (select_rows m c) = 0"
  by (cases c) (simp_all add: no_none_filter none_select del: length_0_conv)

lemma col_len_select: "col_len (select_rows m c) \<le> col_len c"
  by (cases c) (simp_all add: length_select)

lemma no_missing_impute: "no_missing (impute P T)"
  by (simp add: no_missing_def impute_def list_all_iff missing_count_impute split_beta)

lemma no_missing_encode: "no_missing T \<Longrightarrow> no_missing (encode P T)"
  by (simp add: no_missing_def encode_def list_all_iff missing_count_encode split_beta)

lemma no_missing_handle_outliers: "no_missing T \<Longrightarrow> no_missing (handle_outliers P T)"
  by (cases "action P")
     (simp_all add: no_missing_def handle_outliers_def list_all_iff missing_count_select
        missing_count_cap split_beta)

lemma no_missing_clean: "no_missing (fst (clean P T))"
  by (simp add: clean_def drop_missing_columns_def no_missing_handle_outliers no_missing_encode
      no_missing_impute)

lemma columns_impute: "columns (impute P T) = columns T"
  by (simp add: columns_def impute_def split_beta)

lemma columns_encode: "columns (encode P T) = columns T"
  by (simp add: columns_def encode_def split_beta)

lemma columns_handle_outliers: "columns (handle_outliers P T) = columns T"
  by (cases "action P") (simp_all add: columns_def handle_outliers_def split_beta)

lemma nrows_impute: "nrows (impute P T) = nrows T"
  by (cases T) (auto simp: nrows_def impute_def col_len_impute)

lemma nrows_encode: "nrows (encode P T) = nrows T"
  by (cases T) (auto simp: nrows_def encode_def col_len_encode)

lemma nrows_handle_outliers: "nrows (handle_outliers P T) \<le> nrows T"
  by (cases T; cases "action P")
     (auto simp: nrows_def handle_outliers_def col_len_select col_len_cap)

lemma nrows_filter_wf:
  "wf_table T \<Longrightarrow> nrows (filter Q T) \<le> nrows T"
proof (cases "filter Q T")
  case Nil
  then show ?thesis by (simp add: nrows_def)
next
  case (Cons a U)
  assume wf: "wf_table T"
  obtain n c where a: "a = (n, c)" by (cases a)
  have "a \<in> set (filter Q T)" using Cons by simp
  then have "(n, c) \<in> set T" using a by simp
  with wf have "col_len c = nrows T" by (auto simp: wf_table_def list_all_iff)
  with Cons a show ?thesis by (simp add: nrows_def)
qed

text \<open>
  Claim C1. For every policy and every table, the cleaned table has no missing value
  in any column; and when the columns of the table have equal length, as the data
  model requires, the cleaned table has at most as many rows as the input.
\<close>

theorem clean_has_no_missing_values:
  "no_missing (fst (clean P T)) \<and> (wf_table T \<longrightarrow> nrows (fst (clean P T)) \<le> nrows T)"
proof (intro conjI impI)
  show "no_missing (fst (clean P T))" by (rule no_missing_clean)
next
  assume wf: "wf_table T"
  let ?T1 = "filter (\<lambda>(n, c). \<not> all_missing c) T"
  have "nrows (fst (clean P T)) = nrows (handle_outliers P (encode P (impute P ?T1)))"
    by (simp add: clean_def drop_missing_columns_def)
  also have "\<dots> \<le> nrows (encode P (impute P ?T1))" by (rule nrows_handle_outliers)
  also have "\<dots> = nrows ?T1" by (simp add: nrows_encode nrows_impute)
  also have "\<dots> \<le> nrows T" using wf by (rule nrows_filter_wf)
  finally show "nrows (fst (clean P T)) \<le> nrows T" .
qed

theorem clean_has_no_missing_values_witness:
  "wf_table messy_table \<and> \<not> no_missing messy_table \<and>
   no_missing (fst (clean sample_policy messy_table)) \<and>
   nrows (fst (clean sample_policy messy_table)) \<le> nrows messy_table \<and>
   nrows messy_table = 5 \<and> nrows (fst (clean sample_policy messy_table)) = 4"
proof -
  have wf: "wf_table messy_table" by code_simp
  have a: "\<not> no_missing messy_table" by code_simp
  have b: "nrows messy_table = 5" by code_simp
  have c: "nrows (fst (clean sample_policy messy_table)) = 4" by code_simp
  note main = clean_has_no_missing_values[of sample_policy messy_table]
  from main have d: "no_missing (fst (clean sample_policy messy_table))"
    by (rule conjunct1)
  from main[THEN conjunct2, rule_format, OF wf]
  have e: "nrows (fst (clean sample_policy messy_table)) \<le> nrows messy_table" .
  from wf a d e b c show ?thesis by (intro conjI)
qed

subsection \<open>Edge cases\<close>

lemma columns_clean:
  "columns (fst (clean P T)) = columns (filter (\<lambda>(n, c). \<not> all_missing c) T)"
  by (simp add: clean_def drop_missing_columns_def columns_handle_outliers columns_encode
      columns_impute)

lemma warnings_clean:
  "snd (clean P T) = map (\<lambda>(n, c). ColumnDropped n) (filter (\<lambda>(n, c). all_missing c) T)"
  by (simp add: clean_def drop_missing_columns_def)

lemma empty_table_impute: "empty_table T \<Longrightarrow> empty_table (impute P T)"
  by (auto simp: empty_table_def impute_def list_all_iff col_len_impute)

lemma empty_table_encode: "empty_table T \<Longrightarrow> empty_table (encode P T)"
  by (auto simp: empty_table_def encode_def list_all_iff col_len_encode)

lemma empty_table_handle_outliers: "empty_table T \<Longrightarrow> empty_table (handle_outliers P T)"
proof (cases "action P")
  case Remove
  assume "empty_table T"
  then have "\<And>n c m. (n, c) \<in> set T \<Longrightarrow> col_len (select_rows m c) = 0"
  proof -
    fix n c m assume "empty_table T" and "(n, c) \<in> set T"
    then have "col_len c = 0" by (auto simp: empty_table_def list_all_iff)
    with col_len_select[of m c] show "col_len (select_rows m c) = 0" by simp
  qed
  with Remove show ?thesis
    by (auto simp: empty_table_def handle_outliers_def list_all_iff)
next
  case Cap
  assume "empty_table T"
  with Cap show ?thesis
    by (auto simp: empty_table_def handle_outliers_def list_all_iff col_len_cap)
qed

lemma empty_table_no_drop:
  "empty_table T \<Longrightarrow> filter (\<lambda>(n, c). \<not> all_missing c) T = T \<and>
     filter (\<lambda>(n, c). all_missing c) T = []"
  by (auto simp: empty_table_def list_all_iff all_missing_def filter_id_conv filter_empty_conv)

text \<open>
  Claim C6. For every policy: the columns of the cleaned table are the columns of the
  input that are not entirely missing, and the warnings name the entirely missing
  ones, so such a column is dropped with a warning; a table without rows is cleaned
  to a table without rows, with no warning. \<open>clean\<close> is a total function into tables
  and warnings, so neither case is a failure.
\<close>

theorem clean_edge_cases:
  "columns (fst (clean P T)) = columns (filter (\<lambda>(n, c). \<not> all_missing c) T) \<and>
   snd (clean P T) = map (\<lambda>(n, c). ColumnDropped n) (filter (\<lambda>(n, c). all_missing c) T) \<and>
   ((n, c) \<in> set T \<and> all_missing c \<longrightarrow>
      ColumnDropped n \<in> set (snd (clean P T)) \<and>
      (distinct (columns T) \<longrightarrow> n \<notin> set (columns (fst (clean P T))))) \<and>
   (empty_table T \<longrightarrow> empty_table (fst (clean P T)) \<and> snd (clean P T) = [])"
proof (intro conjI impI)
  show "columns (fst (clean P T)) = columns (filter (\<lambda>(n, c). \<not> all_missing c) T)"
    by (rule columns_clean)
  show "snd (clean P T) = map (\<lambda>(n, c). ColumnDropped n) (filter (\<lambda>(n, c). all_missing c) T)"
    by (rule warnings_clean)
next
  assume "(n, c) \<in> set T \<and> all_missing c"
  then show "ColumnDropped n \<in> set (snd (clean P T))"
    by (force simp: warnings_clean)
next
  assume a: "(n, c) \<in> set T \<and> all_missing c" and d: "distinct (columns T)"
  show "n \<notin> set (columns (fst (clean P T)))"
  proof
    assume "n \<in> set (columns (fst (clean P T)))"
    then have "n \<in> set (columns (filter (\<lambda>(n, c). \<not> all_missing c) T))"
      by (simp only: columns_clean)
    then obtain c' where c': "(n, c') \<in> set T" "\<not> all_missing c'"
      by (auto simp: columns_def)
    from d c'(1) a have "c' = c"
      unfolding columns_def by (meson eq_key_imp_eq_value)
    with c'(2) a show False by simp
  qed
next
  assume e: "empty_table T"
  from empty_table_no_drop[OF e] have "fst (clean P T) = handle_outliers P (encode P (impute P T))"
    by (simp add: clean_def drop_missing_columns_def)
  with e show "empty_table (fst (clean P T))"
    by (simp add: empty_table_handle_outliers empty_table_encode empty_table_impute)
  from empty_table_no_drop[OF e] show "snd (clean P T) = []"
    by (simp add: warnings_clean)
qed


theorem clean_edge_cases_witness:
  "(''b'', CatCol [None, None, None, None, None]) \<in> set messy_table \<and>
   all_missing (CatCol [None, None, None, None, None]) \<and>
   distinct (columns messy_table) \<and>
   ColumnDropped ''b'' \<in> set (snd (clean sample_policy messy_table)) \<and>
   ''b'' \<notin> set (columns (fst (clean sample_policy messy_table))) \<and>
   columns (fst (clean sample_policy messy_table)) = [''a'', ''c''] \<and>
   empty_table no_rows_table \<and>
   empty_table (fst (clean sample_policy no_rows_table)) \<and>
   snd (clean sample_policy no_rows_table) = []"
proof -
  let ?b = "CatCol [None, None, None, None, None]"
  have m: "(''b'', ?b) \<in> set messy_table" by (simp add: messy_table_def)
  have am: "all_missing ?b" by (simp add: all_missing_def)
  have d: "distinct (columns messy_table)" by (simp add: messy_table_def columns_def)
  have e: "empty_table no_rows_table" by (simp add: no_rows_table_def empty_table_def)
  have cols: "columns (fst (clean sample_policy messy_table)) = [''a'', ''c'']"
    by code_simp
  note t1 = clean_edge_cases[of sample_policy messy_table "''b''" ?b]
  note t2 = clean_edge_cases[of sample_policy no_rows_table "''b''" ?b]
  from t1 m am d have A: "ColumnDropped ''b'' \<in> set (snd (clean sample_policy messy_table))"
    and B: "''b'' \<notin> set (columns (fst (clean sample_policy messy_table)))"
    by blast+
  from t2 e have C: "empty_table (fst (clean sample_policy no_rows_table))"
    and D: "snd (clean sample_policy no_rows_table) = []"
    by blast+
  from m am d A B cols e C D show ?thesis by (intro conjI)
qed

subsection \<open>Cleaning a cleaned table\<close>

text \<open>
  A second cleaning drops no column and imputes and encodes nothing. It can change
  the cleaned table only in the outlier step: when the policy flags no value of the
  cleaned table, the cleaned table is a fixed point (\<open>reclean_without_outliers\<close>).
  A test relative to the column's own statistics can flag a value once rows are gone:
  under the sample policy a second cleaning removes one more row
  (\<open>reclean_removes_more\<close>).
\<close>

lemma fill_id: "None \<notin> set xs \<Longrightarrow> fill v xs = xs"
proof (induction xs)
  case Nil
  then show ?case by (simp add: fill_def)
next
  case (Cons a xs)
  then show ?case by (cases a) (auto simp: fill_def)
qed

lemma impute_column_id: "missing_count c = 0 \<Longrightarrow> impute_column P c = c"
  by (cases c) (simp_all add: no_none_filter fill_id del: length_0_conv)

lemma impute_id: "no_missing T \<Longrightarrow> impute P T = T"
  by (auto simp: no_missing_def impute_def list_all_iff impute_column_id intro!: map_idI)

lemma drop_id: "no_missing T \<Longrightarrow> drop_missing_columns T = (T, [])"
  by (auto simp: no_missing_def drop_missing_columns_def list_all_iff all_missing_def
      filter_id_conv filter_empty_conv)

lemma coltype_select: "coltype_of (select_rows m c) = coltype_of c"
  by (cases c) simp_all

lemma coltype_cap: "coltype_of (cap_column P c) = coltype_of c"
  by (cases c) simp_all

lemma encoding_done_encode: "encoding_done P (encode P T)"
proof -
  have "coltype_of (encode_column P n c) = Numeric \<or> \<not> encoded P n" for n c
    by (cases c) simp_all
  then show ?thesis
    by (auto simp: encoding_done_def encode_def list_all_iff)
qed

lemma encoding_done_handle_outliers:
  "encoding_done P T \<Longrightarrow> encoding_done P (handle_outliers P T)"
  by (cases "action P")
     (auto simp: encoding_done_def handle_outliers_def list_all_iff coltype_select coltype_cap)

lemma encode_column_id: "coltype_of c = Numeric \<or> \<not> encoded P n \<Longrightarrow> encode_column P n c = c"
  by (cases c) auto

lemma encode_id: "encoding_done P T \<Longrightarrow> encode P T = T"
  by (auto simp: encoding_done_def encode_def list_all_iff encode_column_id intro!: map_idI)

lemma select_all: "length xs \<le> n \<Longrightarrow> select (replicate n True) xs = xs"
proof -
  assume le: "length xs \<le> n"
  have "filter fst (zip (replicate n True) xs) = zip (replicate n True) xs"
    by (auto simp: filter_id_conv dest: set_zip_leftD)
  then have "select (replicate n True) xs = map snd (zip (replicate n True) xs)"
    by (simp add: select_def)
  also have "\<dots> = xs" using le by (simp add: map_snd_zip_take)
  finally show ?thesis .
qed

lemma select_rows_all: "col_len c \<le> n \<Longrightarrow> select_rows (replicate n True) c = c"
  by (cases c) (simp_all add: select_all)

lemma flags_length: "length (flags P c) = col_len c"
  by (cases c) simp_all

lemma flags_clear:
  "\<not> list_ex (\<lambda>f. f) (flags P c) \<Longrightarrow> flags P c = replicate (col_len c) False"
proof -
  assume "\<not> list_ex (\<lambda>f. f) (flags P c)"
  then have "\<forall>f \<in> set (flags P c). f = False" by (auto simp: list_ex_iff)
  then have "flags P c = replicate (length (flags P c)) False"
    by (simp add: replicate_length_same)
  then show ?thesis by (simp add: flags_length)
qed

lemma map2_clear:
  "map2 (\<lambda>f k. \<not> f \<and> k) (replicate a False) (replicate b True) = replicate (min a b) True"
  by (simp add: zip_replicate)

lemma keep_mask_clear_aux:
  assumes "\<forall>(n, c) \<in> set cs. flags P c = replicate k False"
  shows "foldr (\<lambda>(n, c) m. map2 (\<lambda>f k. \<not> f \<and> k) (flags P c) m) cs (replicate k True)
         = replicate k True"
  using assms
proof (induction cs)
  case Nil
  then show ?case by simp
next
  case (Cons a cs)
  obtain n c where a: "a = (n, c)" by (cases a)
  from Cons.prems a have f: "flags P c = replicate k False" by simp
  from Cons have ih: "foldr (\<lambda>(n, c) m. map2 (\<lambda>f k. \<not> f \<and> k) (flags P c) m) cs (replicate k True)
         = replicate k True" by simp
  show ?case by (simp add: a ih f map2_clear del: zip_replicate)
qed

lemma keep_mask_clear:
  assumes "wf_table T" and "\<not> has_outlier P T"
  shows "keep_mask P T = replicate (nrows T) True"
proof -
  have "\<forall>(n, c) \<in> set T. flags P c = replicate (nrows T) False"
  proof (clarify)
    fix n c assume m: "(n, c) \<in> set T"
    with assms(2) have "\<not> list_ex (\<lambda>f. f) (flags P c)"
      by (auto simp: has_outlier_def list_ex_iff)
    then have "flags P c = replicate (col_len c) False" by (rule flags_clear)
    moreover from assms(1) m have "col_len c = nrows T"
      by (auto simp: wf_table_def list_all_iff)
    ultimately show "flags P c = replicate (nrows T) False" by simp
  qed
  then show ?thesis unfolding keep_mask_def by (rule keep_mask_clear_aux)
qed

lemma map_option_id_on: "(\<And>x. Some x \<in> set xs \<Longrightarrow> g x = x) \<Longrightarrow> map (map_option g) xs = xs"
proof (induction xs)
  case Nil
  then show ?case by simp
next
  case (Cons a xs)
  then show ?case by (cases a) auto
qed

lemma present_iff: "x \<in> set (present xs) \<longleftrightarrow> Some x \<in> set xs"
  by (induction xs rule: present.induct) auto

lemma cap_column_clear: "\<not> list_ex (\<lambda>f. f) (flags P c) \<Longrightarrow> cap_column P c = c"
proof (cases c)
  case (NumCol xs)
  assume "\<not> list_ex (\<lambda>f. f) (flags P c)"
  with NumCol have "\<And>x. Some x \<in> set xs \<Longrightarrow> \<not> is_outlier P (present xs) x"
    by (force simp: list_ex_iff)
  then have "map (map_option (\<lambda>x. if is_outlier P (present xs) x
                 then cap_to P (present xs) x else x)) xs = xs"
    by (intro map_option_id_on) simp
  with NumCol show ?thesis by simp
next
  case (CatCol xs)
  then show ?thesis by simp
qed

lemma handle_outliers_clear:
  assumes "wf_table T" and "\<not> has_outlier P T"
  shows "handle_outliers P T = T"
proof (cases "action P")
  case Remove
  have "\<And>n c. (n, c) \<in> set T \<Longrightarrow> select_rows (keep_mask P T) c = c"
  proof -
    fix n c assume "(n, c) \<in> set T"
    with assms(1) have "col_len c \<le> nrows T" by (auto simp: wf_table_def list_all_iff)
    then show "select_rows (keep_mask P T) c = c"
      by (simp add: keep_mask_clear[OF assms] select_rows_all)
  qed
  with Remove show ?thesis
    by (auto simp: handle_outliers_def intro!: map_idI)
next
  case Cap
  have "\<And>n c. (n, c) \<in> set T \<Longrightarrow> cap_column P c = c"
    using assms(2) by (intro cap_column_clear) (auto simp: has_outlier_def list_ex_iff)
  with Cap show ?thesis
    by (auto simp: handle_outliers_def intro!: map_idI)
qed

lemma wf_table_filter: "wf_table T \<Longrightarrow> wf_table (filter Q T)"
proof (cases "filter Q T")
  case Nil
  then show ?thesis by (simp add: wf_table_def)
next
  case (Cons a U)
  assume wf: "wf_table T"
  obtain n c where a: "a = (n, c)" by (cases a)
  have "a \<in> set (filter Q T)" using Cons by simp
  then have "(n, c) \<in> set T" using a by simp
  with wf have "col_len c = nrows T" by (auto simp: wf_table_def list_all_iff)
  with Cons a have "nrows (filter Q T) = nrows T" by (simp add: nrows_def)
  with wf show ?thesis by (auto simp: wf_table_def list_all_iff)
qed

lemma wf_table_impute: "wf_table T \<Longrightarrow> wf_table (impute P T)"
  unfolding wf_table_def nrows_impute
  by (auto simp: impute_def list_all_iff col_len_impute)

lemma wf_table_encode: "wf_table T \<Longrightarrow> wf_table (encode P T)"
  unfolding wf_table_def nrows_encode
  by (auto simp: encode_def list_all_iff col_len_encode)

lemma length_select_take:
  "length (select m xs) = length (filter (\<lambda>b. b) (take (length xs) m))"
proof -
  have "length (select m xs) = length (filter fst (zip m xs))"
    by (simp add: select_def)
  also have "\<dots> = length (filter (\<lambda>b. b) (map fst (zip m xs)))"
    by (simp add: filter_map comp_def)
  also have "map fst (zip m xs) = take (length xs) m"
    by (simp add: map_fst_zip_take min_def)
  finally show ?thesis .
qed

lemma col_len_select_take:
  "col_len (select_rows m c) = length (filter (\<lambda>b. b) (take (col_len c) m))"
  by (cases c) (simp_all add: length_select_take)

lemma wf_table_handle_outliers: "wf_table T \<Longrightarrow> wf_table (handle_outliers P T)"
proof (cases "action P")
  case Remove
  assume wf: "wf_table T"
  let ?m = "keep_mask P T"
  let ?k = "length (filter (\<lambda>b. b) (take (nrows T) ?m))"
  have len: "\<And>n c. (n, c) \<in> set T \<Longrightarrow> col_len (select_rows ?m c) = ?k"
    using wf by (auto simp: wf_table_def list_all_iff col_len_select_take)
  have "nrows (handle_outliers P T) = ?k \<or> T = []"
  proof (cases T)
    case Nil
    then show ?thesis by simp
  next
    case (Cons a U)
    obtain n c where a: "a = (n, c)" by (cases a)
    with Cons have "(n, c) \<in> set T" by simp
    from len[OF this] Cons a Remove show ?thesis
      by (simp add: handle_outliers_def nrows_def)
  qed
  then show ?thesis
  proof
    assume "T = []"
    then show ?thesis by (simp add: handle_outliers_def wf_table_def split: outlier_action.splits)
  next
    assume "nrows (handle_outliers P T) = ?k"
    with len Remove show ?thesis
      by (auto simp: wf_table_def list_all_iff handle_outliers_def)
  qed
next
  case Cap
  assume wf: "wf_table T"
  have "nrows (handle_outliers P T) = nrows T"
    using Cap by (cases T) (auto simp: handle_outliers_def nrows_def col_len_cap)
  with wf Cap show ?thesis
    by (auto simp: wf_table_def list_all_iff handle_outliers_def col_len_cap)
qed

lemma wf_table_clean: "wf_table T \<Longrightarrow> wf_table (fst (clean P T))"
  by (simp add: clean_def drop_missing_columns_def wf_table_handle_outliers wf_table_encode
      wf_table_impute wf_table_filter)

lemma encoding_done_clean: "encoding_done P (fst (clean P T))"
  by (simp add: clean_def drop_missing_columns_def encoding_done_handle_outliers
      encoding_done_encode)

lemma reclean_without_outliers:
  assumes "wf_table T" and "\<not> has_outlier P (fst (clean P T))"
  shows "clean P (fst (clean P T)) = (fst (clean P T), [])"
proof -
  let ?T = "fst (clean P T)"
  have d: "drop_missing_columns ?T = (?T, [])"
    by (rule drop_id) (rule no_missing_clean)
  have i: "impute P ?T = ?T" by (rule impute_id) (rule no_missing_clean)
  have e: "encode P ?T = ?T" by (rule encode_id) (rule encoding_done_clean)
  have h: "handle_outliers P ?T = ?T"
    using wf_table_clean[OF assms(1)] assms(2) by (rule handle_outliers_clear)
  have "clean P ?T = (handle_outliers P (encode P (impute P ?T)), [])"
    unfolding clean_def[of P ?T] d by simp
  then show ?thesis by (simp only: i e h)
qed

lemma reclean_removes_more:
  "fst (clean sample_policy skewed_table) = [(''x'', NumCol [Some 0, Some 0, Some 0, Some 1])] \<and>
   fst (clean sample_policy (fst (clean sample_policy skewed_table)))
     = [(''x'', NumCol [Some 0, Some 0, Some 0])]"
  by code_simp

end
